theory Spec2Isabelle
  imports Main "HOL-Library.Sublist"
begin

section \<open>Strings and JavaScript values\<close>

text \<open>
  Strings are Isabelle strings: lists of 8-bit characters, read as the code units
  \<open>0..255\<close> of a JavaScript string. \<open>String.prototype.trim\<close> strips the ECMAScript
  WhiteSpace and LineTerminator code points; those below 256 are TAB, LF, VT, FF, CR,
  SPACE and NBSP.
\<close>

definition startsWith :: "string \<Rightarrow> string \<Rightarrow> bool" where
  "startsWith s p = (take (length p) s = p)"

definition isWhiteSpace :: "char \<Rightarrow> bool" where
  "isWhiteSpace c =
     (c \<in> set [CHR 0x09, CHR 0x0A, CHR 0x0B, CHR 0x0C, CHR 0x0D, CHR 0x20, CHR 0xA0])"

definition trim :: "string \<Rightarrow> string" where
  "trim s = rev (dropWhile isWhiteSpace (rev (dropWhile isWhiteSpace s)))"

text \<open>The decimal rendering of a non-negative integer in a template literal.\<close>

definition digit :: "nat \<Rightarrow> char" where
  "digit d = ''0123456789'' ! d"

fun decimal :: "nat \<Rightarrow> string" where
  "decimal n = (if n < 10 then [digit n] else decimal (n div 10) @ [digit (n mod 10)])"

declare decimal.simps [simp del]

text \<open>
  A thrown value. Every value thrown on the paths modelled here is an \<open>Error\<close> object
  or one of its subclasses, so \<open>(error as Error).message\<close> is its message.
\<close>

datatype js_error = Error string | TypeError string | SyntaxError string

fun message :: "js_error \<Rightarrow> string" where
  "message (Error m) = m"
| "message (TypeError m) = m"
| "message (SyntaxError m) = m"

text \<open>
  A value that \<open>getAIResponse\<close> can resolve to: a string, or a truthy value of another
  type (\<open>true\<close>, a non-zero number, an array, an object), given by its conversion to a
  string, which is all the code asks of it (in the template literal of the result
  handler and in the \<open>SpeechSynthesisUtterance\<close> constructor). The number 42 is
  \<open>NonStr ''42''\<close>.
\<close>

datatype js_value = Str string | NonStr string

fun toString :: "js_value \<Rightarrow> string" where
  "toString (Str s) = s"
| "toString (NonStr r) = r"

text \<open>\<open>response.ok\<close>: the status is in the range 200 to 299.\<close>

definition ok :: "nat \<Rightarrow> bool" where
  "ok status = (200 \<le> status \<and> status \<le> 299)"

section \<open>The widget (RobertoAI.tsx)\<close>

text \<open>
  The component's props, together with what the platform offers: whether
  \<open>window.SpeechRecognition || window.webkitSpeechRecognition\<close> exists (so that
  \<open>recognitionRef.current\<close> is set by the mount effect), whether \<open>speechSynthesis\<close> is
  in \<open>window\<close>, and the names of the voices \<open>getVoices()\<close> returns.
\<close>

record config =
  apiEndpoint :: string
  systemPrompt :: string
  voiceName :: string
  hasSpeechRecognition :: bool
  hasSpeechSynthesis :: bool
  voices :: "string list"

text \<open>The default props, on a platform with both speech capabilities.\<close>

definition defaults :: config where
  "defaults =
     \<lparr>apiEndpoint = ''http://localhost:3000/api/chat'',
      systemPrompt = ''You are Roberto, a helpful AI assistant. Respond concisely and helpfully.'',
      voiceName = [],
      hasSpeechRecognition = True,
      hasSpeechSynthesis = True,
      voices = []\<rparr>"

text \<open>The \<open>fetch\<close> call of \<open>getAIResponse\<close>: its URL and the two fields of its JSON body.\<close>

record request =
  url :: string
  body_message :: string
  body_systemPrompt :: string

text \<open>
  How the \<open>fetch\<close> settles. \<open>Rejected e\<close>: the promise rejects (network unreachable,
  CORS failure). \<open>Response status body\<close>: a response arrived; \<open>body\<close> is what
  \<open>await response.json()\<close> followed by reading \<open>data.response\<close> gives: \<open>Inl e\<close> when that
  throws (unparsable body, or a JSON \<open>null\<close>); \<open>Inr None\<close> when the property is falsy and
  not a string (absent, \<open>null\<close>, \<open>false\<close>, 0); \<open>Inr (Some (Str r))\<close> when it is the string
  \<open>r\<close>; \<open>Inr (Some (NonStr r))\<close> when it is a truthy value of another type. The body is
  typed \<open>any\<close>: nothing in the code checks that the property is a string.
\<close>

datatype outcome = Rejected js_error | Response nat "js_error + js_value option"

record utterance =
  utter_text :: string
  utter_voice :: "string option"

text \<open>
  The component's state: the three \<open>useState\<close> cells and the two boolean refs, followed by
  a log of the effects on the outside world: calls of \<open>recognition.start()\<close> and
  \<open>recognition.stop()\<close>, the arguments of each \<open>console.error\<close> (a string as it is, an
  error by its message; the parsed error body of \<open>API Error:\<close> is left out), the argument of each
  call of \<open>getAIResponse\<close> made by the result handler, the requests passed to \<open>fetch\<close>,
  the number of requests not yet settled (each one a suspended result handler), the
  arguments of each call of \<open>speakResponse\<close>, the calls of \<open>speechSynthesis.cancel()\<close>
  and the utterances passed to \<open>speechSynthesis.speak\<close>. \<open>console.log\<close> is not modelled.
\<close>

record widget =
  isListening :: bool
  responseText :: string
  isProcessing :: bool
  recognitionActive :: bool
  requestInFlightRef :: bool
  started :: nat
  stopped :: nat
  console :: "string list list"
  relayCalls :: "string list"
  fetches :: "request list"
  outstanding :: nat
  speakCalls :: "js_value list"
  cancels :: nat
  spoken :: "utterance list"

definition init :: widget where
  "init =
     \<lparr>isListening = False, responseText = [], isProcessing = False,
      recognitionActive = False, requestInFlightRef = False,
      started = 0, stopped = 0, console = [], relayCalls = [], fetches = [],
      outstanding = 0, speakCalls = [], cancels = 0, spoken = []\<rparr>"

text \<open>
  The session state of the specification, read off the two flags the component renders:
  idle is neither listening nor processing.
\<close>

definition idle :: "widget \<Rightarrow> bool" where
  "idle w = (\<not> isListening w \<and> \<not> isProcessing w)"

subsection \<open>speakResponse\<close>

text \<open>
  The handler passes on whatever \<open>getAIResponse\<close> resolved to; the utterance's constructor
  converts it to a string.
\<close>

definition speakResponse :: "config \<Rightarrow> js_value \<Rightarrow> widget \<Rightarrow> widget" where
  "speakResponse cfg txt w =
     (let w0 = w\<lparr>speakCalls := speakCalls w @ [txt]\<rparr>
      in if hasSpeechSynthesis cfg
         then w0\<lparr>cancels := cancels w0 + 1,
                 spoken := spoken w0 @
                   [\<lparr>utter_text = toString txt,
                     utter_voice =
                       (if voiceName cfg \<noteq> []
                        then find (\<lambda>v. v = voiceName cfg) (voices cfg) else None)\<rparr>]\<rparr>
         else w0)"

subsection \<open>getAIResponse\<close>

text \<open>The local variable \<open>endpoint\<close>, as a function of the prop \<open>apiEndpoint\<close>.\<close>

definition endpoint :: "string \<Rightarrow> string" where
  "endpoint e =
     (if \<not> startsWith e ''http://'' \<and> \<not> startsWith e ''https://''
      then ''https://'' @ e else e)"

definition fallback :: string where
  "fallback = ''I couldn't process that request.''"

definition apology :: string where
  "apology = ''Sorry, I'm having trouble connecting to the AI service. Error: ''"

text \<open>
  \<open>getAIResponse\<close> is an async function; it is split where it suspends. \<open>getAIResponse_begin\<close>
  runs from the call to \<open>await fetch(...)\<close>: it either returns at once (\<open>Returned\<close>, the
  guard on the trimmed text) or issues the request and suspends (\<open>Awaiting\<close>).
\<close>

datatype progress = Returned js_value | Awaiting

definition getAIResponse_begin :: "config \<Rightarrow> string \<Rightarrow> widget \<Rightarrow> progress \<times> widget" where
  "getAIResponse_begin cfg txt w =
     (if trim txt = [] then (Returned (Str []), w)
      else (Awaiting,
            w\<lparr>isProcessing := True,
              fetches := fetches w @
                [\<lparr>url = endpoint (apiEndpoint cfg), body_message = txt,
                  body_systemPrompt = systemPrompt cfg\<rparr>],
              outstanding := outstanding w + 1\<rparr>))"

text \<open>
  The rest of the \<open>try\<close> block, once the \<open>fetch\<close> has settled: \<open>Inl\<close> is a throw, which
  the \<open>catch\<close> clause below receives. On a non-ok status the error body is parsed with
  \<open>.catch(() => ({}))\<close>, so its parse never throws, and is only logged.
\<close>

fun getAIResponse_try :: "outcome \<Rightarrow> widget \<Rightarrow> (js_error + js_value) \<times> widget" where
  "getAIResponse_try (Rejected e) w = (Inl e, w)"
| "getAIResponse_try (Response status body) w =
     (if \<not> ok status
      then (Inl (Error (''API returned status '' @ decimal status)),
            w\<lparr>console := console w @ [[''API Error:'']]\<rparr>)
      else (case body of
              Inl e \<Rightarrow> (Inl e, w)
            | Inr None \<Rightarrow> (Inr (Str fallback), w)
            | Inr (Some (Str r)) \<Rightarrow> (Inr (Str (if r = [] then fallback else r)), w)
            | Inr (Some (NonStr r)) \<Rightarrow> (Inr (NonStr r), w)))"

text \<open>
  \<open>getAIResponse_settle\<close> adds the \<open>catch\<close> and \<open>finally\<close> clauses and gives the settled
  promise of \<open>getAIResponse\<close>: \<open>Inl\<close> would be a rejection, \<open>Inr\<close> is the resolved value.
\<close>

definition getAIResponse_settle :: "outcome \<Rightarrow> widget \<Rightarrow> (js_error + js_value) \<times> widget" where
  "getAIResponse_settle out w =
     (case getAIResponse_try out w of
        (Inl e, w1) \<Rightarrow>
          (Inr (Str (apology @ message e)),
           w1\<lparr>console := console w1 @ [[''Error getting AI response:'', message e]],
              isProcessing := False, outstanding := outstanding w1 - 1\<rparr>)
      | (Inr r, w1) \<Rightarrow>
          (Inr r, w1\<lparr>isProcessing := False, outstanding := outstanding w1 - 1\<rparr>))"

text \<open>The whole call, given how its request (if it makes one) settles.\<close>

definition getAIResponse ::
    "config \<Rightarrow> string \<Rightarrow> outcome \<Rightarrow> widget \<Rightarrow> (js_error + js_value) \<times> widget" where
  "getAIResponse cfg txt out w =
     (case getAIResponse_begin cfg txt w of
        (Returned r, w1) \<Rightarrow> (Inr r, w1)
      | (Awaiting, w1) \<Rightarrow> getAIResponse_settle out w1)"

subsection \<open>The recognition handlers\<close>

text \<open>
  \<open>recognition.onresult\<close> is an async handler; it suspends at
  \<open>await getAIResponse(transcript)\<close>. \<open>onresult_resume\<close> is the handler from that point
  on, given the settled promise: the rest of the \<open>try\<close> block and the \<open>finally\<close> clause.
  The handler has no \<open>catch\<close>, so a rejection would leave it (the second component).
\<close>

definition onresult_resume ::
    "config \<Rightarrow> js_error + js_value \<Rightarrow> widget \<Rightarrow> widget \<times> js_error option" where
  "onresult_resume cfg settled w =
     (case settled of
        Inl e \<Rightarrow> (w\<lparr>requestInFlightRef := False\<rparr>, Some e)
      | Inr aiResponse \<Rightarrow>
          ((speakResponse cfg aiResponse
              (w\<lparr>responseText :=
                   responseText w @ [CHR 0x0A, CHR 0x0A] @ ''AI: '' @ toString aiResponse\<rparr>))
             \<lparr>requestInFlightRef := False\<rparr>,
           None))"

text \<open>
  \<open>event.results\<close> is given as the list of its entries, each the transcript of the first
  alternative and the \<open>isFinal\<close> mark. On an empty list \<open>event.results[-1]\<close> is
  \<open>undefined\<close> and reading \<open>isFinal\<close> throws (the message is the one V8 gives). When \<open>getAIResponse\<close> returns without
  suspending, the handler resumes in a microtask, before any other event is delivered.
\<close>

definition onresult ::
    "config \<Rightarrow> (string \<times> bool) list \<Rightarrow> widget \<Rightarrow> widget \<times> js_error option" where
  "onresult cfg results w =
     (let transcript = concat (map fst results);
          w1 = w\<lparr>responseText := transcript\<rparr>
      in if results = []
         then (w1, Some (TypeError ''Cannot read properties of undefined (reading 'isFinal')''))
         else if snd (last results) \<and> \<not> requestInFlightRef w1
         then (let w2 = w1\<lparr>requestInFlightRef := True,
                           relayCalls := relayCalls w1 @ [transcript]\<rparr>
               in case getAIResponse_begin cfg transcript w2 of
                    (Returned aiResponse, w3) \<Rightarrow> onresult_resume cfg (Inr aiResponse) w3
                  | (Awaiting, w3) \<Rightarrow> (w3, None))
         else (w1, None))"

text \<open>An outstanding \<open>fetch\<close> settles: \<open>getAIResponse\<close> finishes and the handler resumes.\<close>

definition fetch_settled ::
    "config \<Rightarrow> outcome \<Rightarrow> widget \<Rightarrow> widget \<times> js_error option" where
  "fetch_settled cfg out w =
     (case getAIResponse_settle out w of (settled, w1) \<Rightarrow> onresult_resume cfg settled w1)"

definition onerror :: "string \<Rightarrow> widget \<Rightarrow> widget" where
  "onerror err w =
     w\<lparr>console := console w @ [[''Speech recognition error'', err]],
       isListening := False, isProcessing := False\<rparr>"

subsection \<open>toggleListening and closeOverlay\<close>

definition toggleListening :: "config \<Rightarrow> widget \<Rightarrow> widget" where
  "toggleListening cfg w =
     (if \<not> hasSpeechRecognition cfg
      then w\<lparr>console := console w @ [[''Speech recognition not supported'']]\<rparr>
      else if isListening w
      then w\<lparr>stopped := stopped w + 1, recognitionActive := False, isListening := False\<rparr>
      else w\<lparr>requestInFlightRef := False, responseText := ''Listening...'',
             started := started w + 1, recognitionActive := True, isListening := True\<rparr>)"

definition closeOverlay :: "config \<Rightarrow> widget \<Rightarrow> widget" where
  "closeOverlay cfg w =
     (if isListening w \<and> hasSpeechRecognition cfg
      then w\<lparr>stopped := stopped w + 1, recognitionActive := False\<rparr>
      else w)\<lparr>isListening := False\<rparr>"

subsection \<open>The event loop\<close>

text \<open>
  Everything runs on one event queue. An event is a click or key press that calls
  \<open>toggleListening\<close> or \<open>closeOverlay\<close>, a callback of the recognition object (which
  exists only when the platform has speech recognition), or the settling of an
  outstanding request (which exists only when one is outstanding).
\<close>

datatype event =
    ToggleListening
  | CloseOverlay
  | OnResult "(string \<times> bool) list"
  | OnError string
  | FetchSettled outcome

fun step :: "config \<Rightarrow> widget \<Rightarrow> event \<Rightarrow> widget" where
  "step cfg w ToggleListening = toggleListening cfg w"
| "step cfg w CloseOverlay = closeOverlay cfg w"
| "step cfg w (OnResult results) =
     (if hasSpeechRecognition cfg then fst (onresult cfg results w) else w)"
| "step cfg w (OnError err) = (if hasSpeechRecognition cfg then onerror err w else w)"
| "step cfg w (FetchSettled out) =
     (if outstanding w = 0 then w else fst (fetch_settled cfg out w))"

definition run :: "config \<Rightarrow> event list \<Rightarrow> widget \<Rightarrow> widget" where
  "run cfg evs w = foldl (step cfg) w evs"



text \<open>What the user can perceive: the rendered state and what has been spoken.\<close>

definition perceived :: "widget \<Rightarrow> bool \<times> bool \<times> string \<times> utterance list" where
  "perceived w = (isListening w, isProcessing w, responseText w, spoken w)"

text \<open>The messages \<open>getAIResponse\<close> produces by itself.\<close>

definition degraded :: "string \<Rightarrow> bool" where
  "degraded s = (s = fallback \<or> startsWith s apology)"

text \<open>The outcomes whose body carries a truthy \<open>response\<close> that is not a string.\<close>

fun non_string_response :: "outcome \<Rightarrow> bool" where
  "non_string_response (Response status (Inr (Some (NonStr r)))) = ok status"
| "non_string_response _ = False"

section \<open>The relay backend (server.js)\<close>

text \<open>
  The JSON body of a request to \<open>POST /api/chat\<close>: the two properties the route
  destructures, \<open>None\<close> when absent.
\<close>

record chat_request =
  req_message :: "string option"
  req_systemPrompt :: "string option"

text \<open>The route's answer: the status and the JSON body, one of the two shapes it sends.\<close>

datatype reply_json = ErrorBody string | ResponseBody string

record reply =
  reply_status :: nat
  reply_body :: reply_json

text \<open>
  How the call to the provider settles. \<open>UpstreamRejected e\<close>: \<open>fetch\<close> rejects.
  \<open>UpstreamResponse status body\<close>: a response arrived; \<open>body\<close> is what
  \<open>await response.json()\<close> gives, \<open>Inl e\<close> when it throws, otherwise \<open>Inr\<close> of
  \<open>data.choices?.[0]?.message?.content\<close> (\<open>None\<close> when undefined).
\<close>

datatype upstream = UpstreamRejected js_error | UpstreamResponse nat "js_error + string option"

text \<open>The \<open>try\<close> block of the route; \<open>Inl\<close> is a throw, received by its \<open>catch\<close>.\<close>

definition chat_try :: "chat_request \<Rightarrow> upstream \<Rightarrow> js_error + reply" where
  "chat_try req up =
     (if req_message req = None \<or> req_message req = Some []
      then Inr \<lparr>reply_status = 400, reply_body = ErrorBody ''Message is required''\<rparr>
      else (case up of
              UpstreamRejected e \<Rightarrow> Inl e
            | UpstreamResponse status body \<Rightarrow>
                (if \<not> ok status
                 then (case body of
                         Inl e \<Rightarrow> Inl e
                       | Inr errorData \<Rightarrow>
                           Inr \<lparr>reply_status = status,
                                reply_body = ErrorBody ''Failed to get response from OpenAI''\<rparr>)
                 else (case body of
                         Inl e \<Rightarrow> Inl e
                       | Inr None \<Rightarrow>
                           Inr \<lparr>reply_status = 200, reply_body = ResponseBody fallback\<rparr>
                       | Inr (Some content) \<Rightarrow>
                           Inr \<lparr>reply_status = 200,
                                reply_body =
                                  ResponseBody (if content = [] then fallback else content)\<rparr>))))"

definition api_chat :: "chat_request \<Rightarrow> upstream \<Rightarrow> reply" where
  "api_chat req up =
     (case chat_try req up of
        Inl e \<Rightarrow> \<lparr>reply_status = 500, reply_body = ErrorBody ''Internal server error''\<rparr>
      | Inr r \<Rightarrow> r)"

section \<open>Auxiliary facts\<close>

lemma trim_Nil_iff: "trim s = [] \<longleftrightarrow> (\<forall>c\<in>set s. isWhiteSpace c)"
proof
  assume "trim s = []"
  then have "dropWhile isWhiteSpace (rev (dropWhile isWhiteSpace s)) = []"
    by (simp add: trim_def)
  then have all: "\<forall>c\<in>set (dropWhile isWhiteSpace s). isWhiteSpace c"
    by simp
  have "dropWhile isWhiteSpace s = []"
  proof (rule ccontr)
    assume ne: "dropWhile isWhiteSpace s \<noteq> []"
    then have "\<not> isWhiteSpace (hd (dropWhile isWhiteSpace s))" by (rule hd_dropWhile)
    moreover have "hd (dropWhile isWhiteSpace s) \<in> set (dropWhile isWhiteSpace s)"
      using ne by simp
    ultimately show False using all by blast
  qed
  then show "\<forall>c\<in>set s. isWhiteSpace c" by simp
next
  assume "\<forall>c\<in>set s. isWhiteSpace c"
  then show "trim s = []" by (auto simp: trim_def dest: set_dropWhileD)
qed

lemma startsWith_append: "startsWith (p @ s) p"
  by (simp add: startsWith_def)

lemma begin_blank: "trim txt = [] \<Longrightarrow> getAIResponse_begin cfg txt w = (Returned (Str []), w)"
  by (simp add: getAIResponse_begin_def)

lemma begin_request:
  "trim txt \<noteq> [] \<Longrightarrow>
   getAIResponse_begin cfg txt w =
     (Awaiting,
      w\<lparr>isProcessing := True,
        fetches := fetches w @
          [\<lparr>url = endpoint (apiEndpoint cfg), body_message = txt,
            body_systemPrompt = systemPrompt cfg\<rparr>],
        outstanding := outstanding w + 1\<rparr>)"
  by (simp add: getAIResponse_begin_def)

lemma settle_cases:
  "fst (getAIResponse_settle out w) =
     Inr (case out of
            Rejected e \<Rightarrow> Str (apology @ message e)
          | Response status body \<Rightarrow>
              if \<not> ok status then Str (apology @ ''API returned status '' @ decimal status)
              else (case body of
                      Inl e \<Rightarrow> Str (apology @ message e)
                    | Inr None \<Rightarrow> Str fallback
                    | Inr (Some (Str r)) \<Rightarrow> Str (if r = [] then fallback else r)
                    | Inr (Some (NonStr r)) \<Rightarrow> NonStr r))"
  by (simp add: getAIResponse_settle_def
        split: outcome.splits sum.splits option.splits js_value.splits)

lemma settle_fields:
  "isListening (snd (getAIResponse_settle out w)) = isListening w \<and>
   responseText (snd (getAIResponse_settle out w)) = responseText w \<and>
   requestInFlightRef (snd (getAIResponse_settle out w)) = requestInFlightRef w \<and>
   outstanding (snd (getAIResponse_settle out w)) = outstanding w - 1 \<and>
   isProcessing (snd (getAIResponse_settle out w)) = False"
  by (cases out) (auto simp: getAIResponse_settle_def split: sum.splits option.splits js_value.splits)

lemma resume_Inr:
  "onresult_resume cfg (Inr r) w =
     ((speakResponse cfg r
         (w\<lparr>responseText := responseText w @ [CHR 0x0A, CHR 0x0A] @ ''AI: '' @ toString r\<rparr>))
        \<lparr>requestInFlightRef := False\<rparr>, None)"
  by (simp add: onresult_resume_def)

lemma speak_fields:
  "isListening (speakResponse cfg t w) = isListening w"
  "isProcessing (speakResponse cfg t w) = isProcessing w"
  "responseText (speakResponse cfg t w) = responseText w"
  "requestInFlightRef (speakResponse cfg t w) = requestInFlightRef w"
  "outstanding (speakResponse cfg t w) = outstanding w"
  "fetches (speakResponse cfg t w) = fetches w"
  "relayCalls (speakResponse cfg t w) = relayCalls w"
  "started (speakResponse cfg t w) = started w"
  "stopped (speakResponse cfg t w) = stopped w"
  "console (speakResponse cfg t w) = console w"
  "speakCalls (speakResponse cfg t w) = speakCalls w @ [t]"
  by (simp_all add: speakResponse_def Let_def)

lemma fetch_settled_eq:
  "fetch_settled cfg out w =
     onresult_resume cfg (fst (getAIResponse_settle out w)) (snd (getAIResponse_settle out w))"
  by (simp add: fetch_settled_def split: prod.splits)



lemma fetch_settled_no_throw: "snd (fetch_settled cfg out w) = None"
  by (simp add: fetch_settled_eq settle_cases resume_Inr)

lemma onresult_dropped:
  "results \<noteq> [] \<Longrightarrow> \<not> snd (last results) \<or> requestInFlightRef w \<Longrightarrow>
   onresult cfg results w = (w\<lparr>responseText := concat (map fst results)\<rparr>, None)"
  by (auto simp: onresult_def Let_def)

lemma onresult_blank:
  "results \<noteq> [] \<Longrightarrow> snd (last results) \<Longrightarrow> \<not> requestInFlightRef w \<Longrightarrow>
   trim (concat (map fst results)) = [] \<Longrightarrow>
   onresult cfg results w =
     ((speakResponse cfg (Str [])
         (w\<lparr>requestInFlightRef := True,
            relayCalls := relayCalls w @ [concat (map fst results)],
            responseText := concat (map fst results) @ [CHR 0x0A, CHR 0x0A] @ ''AI: ''\<rparr>))
        \<lparr>requestInFlightRef := False\<rparr>, None)"
  by (simp add: onresult_def Let_def begin_blank resume_Inr)


lemma onresult_empty:
  "fst (onresult cfg [] w) = w\<lparr>responseText := []\<rparr>"
  by (simp add: onresult_def)




section \<open>The claims\<close>




text \<open>
  Claim C2, as stated, fails: with the default \<open>apiEndpoint\<close> the request goes to an
  \<open>http://\<close> URL.
\<close>

theorem default_endpoint_not_https:
  "fetches (snd (getAIResponse_begin defaults ''hello'' init)) =
     [\<lparr>url = ''http://localhost:3000/api/chat'', body_message = ''hello'',
       body_systemPrompt =
         ''You are Roberto, a helpful AI assistant. Respond concisely and helpfully.''\<rparr>] \<and>
   \<not> startsWith ''http://localhost:3000/api/chat'' ''https://''"
  by code_simp

text \<open>
  Claim C2, amended. The URL used for the request always starts with \<open>http://\<close> or
  \<open>https://\<close>: an \<open>apiEndpoint\<close> that starts with either is used unchanged, and any other
  one gets \<open>https://\<close> prepended. The request \<open>getAIResponse\<close> sends goes to that URL.
\<close>

theorem endpoint_has_scheme:
  "(startsWith (endpoint e) ''http://'' \<or> startsWith (endpoint e) ''https://'') \<and>
   (startsWith e1 ''http://'' \<or> startsWith e1 ''https://'' \<longrightarrow> endpoint e1 = e1) \<and>
   (\<not> startsWith e2 ''http://'' \<and> \<not> startsWith e2 ''https://'' \<longrightarrow>
      endpoint e2 = ''https://'' @ e2) \<and>
   (trim txt \<noteq> [] \<longrightarrow>
      map url (fetches (snd (getAIResponse_begin cfg txt w))) =
        map url (fetches w) @ [endpoint (apiEndpoint cfg)])"
proof -
  have "startsWith (endpoint e) ''http://'' \<or> startsWith (endpoint e) ''https://''"
  proof (cases "\<not> startsWith e ''http://'' \<and> \<not> startsWith e ''https://''")
    case True
    then have "endpoint e = ''https://'' @ e" by (simp add: endpoint_def)
    then show ?thesis by (simp add: startsWith_def)
  next
    case False
    then have "endpoint e = e" by (auto simp: endpoint_def)
    with False show ?thesis by auto
  qed
  moreover have "startsWith e1 ''http://'' \<or> startsWith e1 ''https://'' \<longrightarrow> endpoint e1 = e1"
    by (auto simp: endpoint_def)
  moreover have "\<not> startsWith e2 ''http://'' \<and> \<not> startsWith e2 ''https://'' \<longrightarrow>
      endpoint e2 = ''https://'' @ e2"
    by (simp add: endpoint_def)
  moreover have "trim txt \<noteq> [] \<longrightarrow>
      map url (fetches (snd (getAIResponse_begin cfg txt w))) =
        map url (fetches w) @ [endpoint (apiEndpoint cfg)]"
    by (simp add: begin_request)
  ultimately show ?thesis by blast
qed

theorem endpoint_has_scheme_witness:
  "startsWith ''http://localhost:3000/api/chat'' ''http://'' \<and>
   endpoint ''http://localhost:3000/api/chat'' = ''http://localhost:3000/api/chat'' \<and>
   \<not> startsWith ''example.com/api/chat'' ''http://'' \<and>
   \<not> startsWith ''example.com/api/chat'' ''https://'' \<and>
   endpoint ''example.com/api/chat'' = ''https://example.com/api/chat'' \<and>
   trim ''hello'' \<noteq> [] \<and>
   map url (fetches (snd (getAIResponse_begin (defaults\<lparr>apiEndpoint := ''example.com/api/chat''\<rparr>)
      ''hello'' init))) = [''https://example.com/api/chat'']"
proof -
  have h1: "startsWith ''http://localhost:3000/api/chat'' ''http://''" by code_simp
  have h2: "\<not> startsWith ''example.com/api/chat'' ''http://'' \<and>
            \<not> startsWith ''example.com/api/chat'' ''https://''" by code_simp
  have h3: "trim ''hello'' \<noteq> []" by code_simp
  have f: "fetches init = []" by (simp add: init_def)
  have a: "apiEndpoint (defaults\<lparr>apiEndpoint := ''example.com/api/chat''\<rparr>) = ''example.com/api/chat''"
    by simp
  from endpoint_has_scheme [of "''example.com/api/chat''" "''http://localhost:3000/api/chat''"
      "''example.com/api/chat''" "''hello''" "defaults\<lparr>apiEndpoint := ''example.com/api/chat''\<rparr>" init]
    h1 h2 h3 f a
  show ?thesis by simp
qed

text \<open>
  Claim C3, as stated, fails, in two ways. On a text that is empty or only whitespace
  the call resolves to the empty string, which is neither the provider's text (here
  \<open>Hi\<close>) nor one of the messages \<open>getAIResponse\<close> produces. And when the body of a 2xx
  response carries a truthy \<open>response\<close> that is not a string (here the number 42), the
  call resolves to that value, not to a string.
\<close>

theorem blank_text_resolves_empty:
  "fst (getAIResponse defaults ''  '' (Response 200 (Inr (Some (Str ''Hi'')))) init) = Inr (Str []) \<and>
   Str [] \<noteq> Str ''Hi'' \<and>
   \<not> degraded [] \<and>
   fst (getAIResponse defaults ''hello'' (Response 200 (Inr (Some (NonStr ''42'')))) init) =
     Inr (NonStr ''42'')"
  by code_simp

text \<open>
  Claim C3, amended. For every text and every outcome of the request, \<open>getAIResponse\<close>
  resolves and never rejects. It resolves to the empty string when the text is empty or
  only whitespace. Otherwise it resolves: to the apology followed by the error's message
  when the request is rejected; to the apology followed by \<open>API returned status\<close> and the
  status when the status is not in 200..299; to the apology followed by the error's
  message when reading the body throws; to the body's \<open>response\<close> property, unchanged,
  when that is truthy (a non-empty string, or a truthy value of another type); and to
  the fallback sentence when the property is falsy. So the value is a string unless the
  body carries a truthy \<open>response\<close> that is not a string.
\<close>

theorem getAIResponse_never_throws:
  "(\<exists>v. fst (getAIResponse cfg txt out w) = Inr v) \<and>
   (\<not> non_string_response out \<longrightarrow> (\<exists>s. fst (getAIResponse cfg txt out w) = Inr (Str s))) \<and>
   (trim txt0 = [] \<longrightarrow> fst (getAIResponse cfg txt0 out w) = Inr (Str [])) \<and>
   (trim txt1 \<noteq> [] \<longrightarrow>
      fst (getAIResponse cfg txt1 (Rejected e) w) = Inr (Str (apology @ message e))) \<and>
   (trim txt1 \<noteq> [] \<and> \<not> ok status1 \<longrightarrow>
      fst (getAIResponse cfg txt1 (Response status1 body) w) =
        Inr (Str (apology @ ''API returned status '' @ decimal status1))) \<and>
   (trim txt1 \<noteq> [] \<and> ok status2 \<longrightarrow>
      fst (getAIResponse cfg txt1 (Response status2 (Inl e)) w) = Inr (Str (apology @ message e)) \<and>
      fst (getAIResponse cfg txt1 (Response status2 (Inr None)) w) = Inr (Str fallback) \<and>
      fst (getAIResponse cfg txt1 (Response status2 (Inr (Some (Str r)))) w) =
        Inr (Str (if r = [] then fallback else r)) \<and>
      fst (getAIResponse cfg txt1 (Response status2 (Inr (Some (NonStr r1)))) w) = Inr (NonStr r1))"
proof -
  have blank: "fst (getAIResponse cfg t o' w) = Inr (Str [])" if "trim t = []" for t o'
    using that by (simp add: getAIResponse_def begin_blank)
  have sent: "fst (getAIResponse cfg t o' w) =
      fst (getAIResponse_settle o'
        (w\<lparr>isProcessing := True,
           fetches := fetches w @
             [\<lparr>url = endpoint (apiEndpoint cfg), body_message = t,
               body_systemPrompt = systemPrompt cfg\<rparr>],
           outstanding := outstanding w + 1\<rparr>))" if "trim t \<noteq> []" for t o'
    using that by (simp add: getAIResponse_def begin_request)
  have resolves: "\<exists>v. fst (getAIResponse cfg txt out w) = Inr v"
  proof (cases "trim txt = []")
    case True
    then show ?thesis by (simp add: blank)
  next
    case False
    then show ?thesis by (simp add: sent settle_cases)
  qed
  have string: "\<exists>s. fst (getAIResponse cfg txt out w) = Inr (Str s)"
    if n: "\<not> non_string_response out"
  proof (cases "trim txt = []")
    case True
    then show ?thesis by (simp add: blank)
  next
    case False
    with n show ?thesis
      by (cases out rule: non_string_response.cases) (simp_all add: sent settle_cases)
  qed
  have c0: "trim txt0 = [] \<longrightarrow> fst (getAIResponse cfg txt0 out w) = Inr (Str [])"
    by (simp add: blank)
  have c1: "trim txt1 \<noteq> [] \<longrightarrow>
      fst (getAIResponse cfg txt1 (Rejected e) w) = Inr (Str (apology @ message e))"
    by (simp add: sent settle_cases)
  have c2: "trim txt1 \<noteq> [] \<and> \<not> ok status1 \<longrightarrow>
      fst (getAIResponse cfg txt1 (Response status1 body) w) =
        Inr (Str (apology @ ''API returned status '' @ decimal status1))"
    by (simp add: sent settle_cases)
  have c3: "trim txt1 \<noteq> [] \<and> ok status2 \<longrightarrow>
      fst (getAIResponse cfg txt1 (Response status2 (Inl e)) w) = Inr (Str (apology @ message e)) \<and>
      fst (getAIResponse cfg txt1 (Response status2 (Inr None)) w) = Inr (Str fallback) \<and>
      fst (getAIResponse cfg txt1 (Response status2 (Inr (Some (Str r)))) w) =
        Inr (Str (if r = [] then fallback else r)) \<and>
      fst (getAIResponse cfg txt1 (Response status2 (Inr (Some (NonStr r1)))) w) = Inr (NonStr r1)"
    by (simp add: sent settle_cases)
  from resolves string c0 c1 c2 c3 show ?thesis by blast
qed

theorem getAIResponse_never_throws_witness:
  "\<not> non_string_response (Rejected (TypeError ''Failed to fetch'')) \<and>
   trim ''  '' = [] \<and>
   fst (getAIResponse defaults ''  '' (Rejected (TypeError ''Failed to fetch'')) init) = Inr (Str []) \<and>
   trim ''hello'' \<noteq> [] \<and> \<not> ok 500 \<and> ok 200 \<and>
   fst (getAIResponse defaults ''hello'' (Rejected (TypeError ''Failed to fetch'')) init) =
     Inr (Str (apology @ ''Failed to fetch'')) \<and>
   fst (getAIResponse defaults ''hello'' (Response 500 (Inr None)) init) =
     Inr (Str (apology @ ''API returned status 500'')) \<and>
   fst (getAIResponse defaults ''hello'' (Response 200 (Inr (Some (Str ''Hi there'')))) init) =
     Inr (Str ''Hi there'') \<and>
   fst (getAIResponse defaults ''hello'' (Response 200 (Inr (Some (NonStr ''42'')))) init) =
     Inr (NonStr ''42'')"
proof -
  have h: "\<not> non_string_response (Rejected (TypeError ''Failed to fetch'')) \<and>
           trim ''  '' = [] \<and> trim ''hello'' \<noteq> [] \<and> \<not> ok 500 \<and> ok 200"
    by code_simp
  have d: "decimal 500 = ''500''" by code_simp
  from getAIResponse_never_throws [of defaults "''hello''" "Rejected (TypeError ''Failed to fetch'')"
      init "''  ''" "''hello''" "TypeError ''Failed to fetch''" 500 "Inr None" 200 "''Hi there''"
      "''42''"]
    h d
  show ?thesis by simp
qed

text \<open>
  Claim C4. When the request settles with a response whose status is not in 200..299
  (500, say), the suspended result handler finishes without throwing, and the displayed
  text becomes what it was, followed by two newlines, \<open>AI: \<close> and the apology ending in
  \<open>API returned status\<close> and the decimal digits of that status.
\<close>

theorem relay_error_status_displayed:
  assumes "\<not> ok status"
  shows "snd (fetch_settled cfg (Response status body) w) = None \<and>
         responseText (fst (fetch_settled cfg (Response status body) w)) =
           responseText w @ [CHR 0x0A, CHR 0x0A] @ ''AI: '' @
             apology @ ''API returned status '' @ decimal status \<and>
         sublist (decimal status) (responseText (fst (fetch_settled cfg (Response status body) w))) \<and>
         (0 < outstanding w \<longrightarrow>
            step cfg w (FetchSettled (Response status body)) =
              fst (fetch_settled cfg (Response status body) w))"
proof -
  have t: "responseText (fst (fetch_settled cfg (Response status body) w)) =
           responseText w @ [CHR 0x0A, CHR 0x0A] @ ''AI: '' @
             apology @ ''API returned status '' @ decimal status"
    using assms by (simp add: fetch_settled_eq settle_cases resume_Inr speak_fields settle_fields)
  have "responseText (fst (fetch_settled cfg (Response status body) w)) =
          (responseText w @ [CHR 0x0A, CHR 0x0A] @ ''AI: '' @ apology @ ''API returned status '')
            @ decimal status @ []"
    by (simp add: t)
  then have "sublist (decimal status) (responseText (fst (fetch_settled cfg (Response status body) w)))"
    unfolding sublist_def by blast
  with t show ?thesis by (simp add: fetch_settled_no_throw)
qed

theorem relay_error_status_displayed_witness:
  "\<not> ok 500 \<and>
   0 < outstanding (run defaults [ToggleListening, OnResult [(''hello'', True)]] init) \<and>
   responseText
     (step defaults (run defaults [ToggleListening, OnResult [(''hello'', True)]] init)
        (FetchSettled (Response 500 (Inl (SyntaxError ''Unexpected token <''))))) =
     ''hello'' @ [CHR 0x0A, CHR 0x0A] @
     ''AI: Sorry, I'm having trouble connecting to the AI service. Error: API returned status 500''"
proof -
  have h: "\<not> ok 500" by (simp add: ok_def)
  have d: "decimal 500 = ''500''" by code_simp
  have r: "outstanding (run defaults [ToggleListening, OnResult [(''hello'', True)]] init) = 1 \<and>
           responseText (run defaults [ToggleListening, OnResult [(''hello'', True)]] init) = ''hello''"
    by code_simp
  from relay_error_status_displayed [OF h, of defaults "Inl (SyntaxError ''Unexpected token <'')"
      "run defaults [ToggleListening, OnResult [(''hello'', True)]] init"] h d r
  show ?thesis by (simp add: apology_def)
qed

text \<open>
  Claim C5. When the text is empty or consists only of whitespace, \<open>getAIResponse\<close>
  returns the empty string at once, with the state as it was: no request is passed to
  \<open>fetch\<close>. The same holds of the result handler when that text is the transcript of
  its event, whatever the event's marks and the in-flight flag.
\<close>

theorem blank_transcript_no_request:
  assumes "\<forall>c\<in>set txt. isWhiteSpace c"
  shows "getAIResponse_begin cfg txt w = (Returned (Str []), w) \<and>
         getAIResponse cfg txt out w = (Inr (Str []), w) \<and>
         (concat (map fst results) = txt \<longrightarrow>
            fetches (fst (onresult cfg results w)) = fetches w \<and>
            outstanding (fst (onresult cfg results w)) = outstanding w)"
proof -
  from assms have blank: "trim txt = []" by (simp add: trim_Nil_iff)
  then have b: "getAIResponse_begin cfg txt w = (Returned (Str []), w)" by (rule begin_blank)
  then have g: "getAIResponse cfg txt out w = (Inr (Str []), w)" by (simp add: getAIResponse_def)
  have "fetches (fst (onresult cfg results w)) = fetches w \<and>
        outstanding (fst (onresult cfg results w)) = outstanding w"
    if t: "concat (map fst results) = txt"
  proof (cases "results = []")
    case True
    then show ?thesis by (simp add: onresult_empty)
  next
    case ne: False
    show ?thesis
    proof (cases "snd (last results) \<and> \<not> requestInFlightRef w")
      case True
      then show ?thesis using ne blank t by (simp add: onresult_blank speak_fields)
    next
      case False
      then have "\<not> snd (last results) \<or> requestInFlightRef w" by blast
      then show ?thesis using ne by (simp add: onresult_dropped)
    qed
  qed
  with b g show ?thesis by blast
qed

theorem blank_transcript_no_request_witness:
  "list_all isWhiteSpace [CHR 0x20, CHR 0x09, CHR 0x0A] \<and>
   getAIResponse defaults [CHR 0x20, CHR 0x09, CHR 0x0A] (Response 200 (Inr (Some (Str ''Hi'')))) init
     = (Inr (Str []), init) \<and>
   fetches (fst (onresult defaults [([CHR 0x20], False), ([CHR 0x09, CHR 0x0A], True)] init)) = []"
proof -
  have h: "\<forall>c\<in>set [CHR 0x20, CHR 0x09, CHR 0x0A]. isWhiteSpace c"
    by (simp add: isWhiteSpace_def)
  have c: "concat (map fst [([CHR 0x20], False), ([CHR 0x09, CHR 0x0A], True)])
             = [CHR 0x20, CHR 0x09, CHR 0x0A]"
    by simp
  have f: "fetches init = []" by (simp add: init_def)
  from blank_transcript_no_request [OF h, of defaults init "Response 200 (Inr (Some (Str ''Hi'')))"
      "[([CHR 0x20], False), ([CHR 0x09, CHR 0x0A], True)]"] h c f
  show ?thesis by (simp add: list_all_iff)
qed

text \<open>
  Claim C6, as stated, fails: without speech recognition \<open>toggleListening\<close> changes
  nothing the user can perceive; no error is displayed or spoken.
\<close>

theorem unsupported_start_not_shown:
  "perceived (toggleListening (defaults\<lparr>hasSpeechRecognition := False\<rparr>) init) = perceived init \<and>
   perceived init = (False, False, [], [])"
  by code_simp

text \<open>
  Claim C6, amended. Without speech recognition, \<open>toggleListening\<close> leaves the widget
  as it was, so an idle widget stays idle and no capture is started; the only effect is
  one \<open>console.error\<close> with the text \<open>Speech recognition not supported\<close>.
\<close>

theorem unsupported_start_stays_idle:
  assumes "\<not> hasSpeechRecognition cfg"
  shows "toggleListening cfg w = w\<lparr>console := console w @ [[''Speech recognition not supported'']]\<rparr> \<and>
         (idle w \<longrightarrow> idle (toggleListening cfg w)) \<and>
         started (toggleListening cfg w) = started w \<and>
         perceived (toggleListening cfg w) = perceived w"
  using assms by (simp add: toggleListening_def idle_def perceived_def)

theorem unsupported_start_stays_idle_witness:
  "\<not> hasSpeechRecognition (defaults\<lparr>hasSpeechRecognition := False\<rparr>) \<and> idle init \<and>
   idle (toggleListening (defaults\<lparr>hasSpeechRecognition := False\<rparr>) init) \<and>
   started (toggleListening (defaults\<lparr>hasSpeechRecognition := False\<rparr>) init) = 0 \<and>
   console (toggleListening (defaults\<lparr>hasSpeechRecognition := False\<rparr>) init) =
     [[''Speech recognition not supported'']]"
proof -
  have h: "\<not> hasSpeechRecognition (defaults\<lparr>hasSpeechRecognition := False\<rparr>)" by simp
  have i: "idle init \<and> started init = 0 \<and> console init = []" by (simp add: idle_def init_def)
  from unsupported_start_stays_idle [OF h, of init] h i
  show ?thesis by (simp add: idle_def init_def)
qed

text \<open>
  Claim C7, as stated, fails: after a recognition error the displayed text is what it
  was before (here \<open>Listening...\<close>) and nothing has been spoken; the error is not shown.
\<close>

theorem recognition_error_not_displayed:
  "perceived (step defaults (step defaults init ToggleListening) (OnError ''no-speech'')) =
     (False, False, ''Listening...'', [])"
  by code_simp

text \<open>
  Claim C7, amended. Every recognition error makes the widget idle and is reported by
  one \<open>console.error\<close> carrying the error; the displayed text and the spoken utterances
  are unchanged. The handler starts no recognition, makes no relay call and sends no
  request.
\<close>

theorem recognition_error_forces_idle:
  "idle (onerror err w) \<and>
   console (onerror err w) = console w @ [[''Speech recognition error'', err]] \<and>
   responseText (onerror err w) = responseText w \<and>
   spoken (onerror err w) = spoken w \<and>
   started (onerror err w) = started w \<and>
   relayCalls (onerror err w) = relayCalls w \<and>
   fetches (onerror err w) = fetches w \<and>
   outstanding (onerror err w) = outstanding w \<and>
   (hasSpeechRecognition cfg \<longrightarrow> step cfg w (OnError err) = onerror err w)"
  by (simp add: onerror_def idle_def)

theorem recognition_error_forces_idle_witness:
  "hasSpeechRecognition defaults \<and>
   isListening (toggleListening defaults init) \<and>
   idle (step defaults (toggleListening defaults init) (OnError ''no-speech'')) \<and>
   started (step defaults (toggleListening defaults init) (OnError ''no-speech'')) = 1 \<and>
   console (step defaults (toggleListening defaults init) (OnError ''no-speech'')) =
     [[''Speech recognition error'', ''no-speech'']]"
proof -
  have h: "hasSpeechRecognition defaults" by (simp add: defaults_def)
  have i: "isListening (toggleListening defaults init) \<and>
           started (toggleListening defaults init) = 1 \<and>
           console (toggleListening defaults init) = []"
    by code_simp
  from recognition_error_forces_idle [of "''no-speech''" "toggleListening defaults init" defaults] h i
  show ?thesis by simp
qed

text \<open>
  Claim C8 fails on the code at an upstream error whose body is not JSON (a 503 with a
  plain error page): \<open>await response.json()\<close> throws inside the \<open>try\<close> block, and the route
  answers 500 with \<open>Internal server error\<close> instead of mirroring the 503.
\<close>

theorem upstream_unparsable_error_answers_500:
  "api_chat \<lparr>req_message = Some ''hello'', req_systemPrompt = None\<rparr>
     (UpstreamResponse 503 (Inl (SyntaxError ''Unexpected token < in JSON at position 0''))) =
   \<lparr>reply_status = 500, reply_body = ErrorBody ''Internal server error''\<rparr>"
  by (simp add: api_chat_def chat_try_def ok_def)

text \<open>
  When the error body does parse, the route mirrors the upstream status with an
  \<open>error\<close> body, as the claim says.
\<close>

lemma api_chat_mirrors_parsed_error:
  assumes "req_message req \<noteq> None" and "req_message req \<noteq> Some []" and "\<not> ok status"
  shows "api_chat req (UpstreamResponse status (Inr errorData)) =
           \<lparr>reply_status = status, reply_body = ErrorBody ''Failed to get response from OpenAI''\<rparr>"
  using assms by (simp add: api_chat_def chat_try_def)

text \<open>
  Claim C9, as stated, fails: stopping while \<open>isProcessing\<close> is set (here a request has
  just been sent) leaves it set, so the widget is not idle, however often stop is
  repeated.
\<close>

theorem stop_while_processing_not_idle:
  "isListening (run defaults [ToggleListening, OnResult [(''hi'', True)]] init) \<and>
   \<not> idle (closeOverlay defaults (run defaults [ToggleListening, OnResult [(''hi'', True)]] init)) \<and>
   \<not> idle (closeOverlay defaults
            (closeOverlay defaults (run defaults [ToggleListening, OnResult [(''hi'', True)]] init))) \<and>
   \<not> idle (toggleListening defaults (run defaults [ToggleListening, OnResult [(''hi'', True)]] init))"
  by code_simp

text \<open>
  Claim C9, amended. While listening, \<open>closeOverlay\<close> (and \<open>toggleListening\<close>, which then
  does the same) calls \<open>recognition.stop()\<close> exactly once; when not listening it calls
  it not at all. From any state \<open>closeOverlay\<close> clears \<open>isListening\<close>, never starts
  capture, and is idempotent. It leaves \<open>isProcessing\<close> as it was: the widget is idle
  afterwards exactly when \<open>isProcessing\<close> was false before the call.
\<close>

theorem stop_halts_once_idempotent:
  "(isListening w \<and> hasSpeechRecognition cfg \<longrightarrow>
      stopped (closeOverlay cfg w) = stopped w + 1 \<and> toggleListening cfg w = closeOverlay cfg w) \<and>
   (\<not> isListening w1 \<longrightarrow> stopped (closeOverlay cfg w1) = stopped w1) \<and>
   \<not> isListening (closeOverlay cfg w2) \<and>
   closeOverlay cfg (closeOverlay cfg w2) = closeOverlay cfg w2 \<and>
   started (closeOverlay cfg w2) = started w2 \<and>
   isProcessing (closeOverlay cfg w2) = isProcessing w2 \<and>
   idle (closeOverlay cfg w2) = (\<not> isProcessing w2)"
  by (simp add: closeOverlay_def toggleListening_def idle_def)

theorem stop_halts_once_idempotent_witness:
  "isListening (toggleListening defaults init) \<and> hasSpeechRecognition defaults \<and>
   stopped (closeOverlay defaults (toggleListening defaults init)) = 1 \<and>
   idle (closeOverlay defaults (toggleListening defaults init)) \<and>
   \<not> isListening (closeOverlay defaults (toggleListening defaults init)) \<and>
   stopped (closeOverlay defaults (closeOverlay defaults (toggleListening defaults init))) = 1 \<and>
   started (closeOverlay defaults (closeOverlay defaults (toggleListening defaults init))) = 1"
proof -
  have h: "isListening (toggleListening defaults init) \<and> hasSpeechRecognition defaults" by code_simp
  have i: "stopped (toggleListening defaults init) = 0 \<and> started (toggleListening defaults init) = 1 \<and>
           \<not> isProcessing (toggleListening defaults init)"
    by code_simp
  have j: "\<not> isListening (closeOverlay defaults (toggleListening defaults init))"
    by code_simp
  from stop_halts_once_idempotent [of "toggleListening defaults init" defaults
      "closeOverlay defaults (toggleListening defaults init)" "toggleListening defaults init"] h i j
  show ?thesis by simp
qed

text \<open>
  Claim C10. A final result whose transcript is empty or only whitespace, arriving while
  the in-flight flag is clear, makes no request, yet the handler finishes without
  throwing, the displayed text becomes the transcript followed by two newlines, \<open>AI: \<close> and the
  empty response, and \<open>speakResponse\<close> is called exactly once, with the empty string.
\<close>

theorem blank_transcript_still_answered:
  assumes "results \<noteq> []" and "snd (last results)" and "\<not> requestInFlightRef w"
    and "\<forall>c\<in>set (concat (map fst results)). isWhiteSpace c"
  shows "snd (onresult cfg results w) = None \<and>
         responseText (fst (onresult cfg results w)) =
           concat (map fst results) @ [CHR 0x0A, CHR 0x0A] @ ''AI: '' @ [] \<and>
         speakCalls (fst (onresult cfg results w)) = speakCalls w @ [Str []] \<and>
         fetches (fst (onresult cfg results w)) = fetches w \<and>
         outstanding (fst (onresult cfg results w)) = outstanding w"
proof -
  from assms(4) have "trim (concat (map fst results)) = []" by (simp add: trim_Nil_iff)
  with assms(1-3) show ?thesis by (simp add: onresult_blank speak_fields)
qed

theorem blank_transcript_still_answered_witness:
  "[([CHR 0x20, CHR 0x20], True)] \<noteq> [] \<and> snd (last [([CHR 0x20, CHR 0x20], True)]) \<and>
   \<not> requestInFlightRef (toggleListening defaults init) \<and>
   list_all isWhiteSpace (concat (map fst [([CHR 0x20, CHR 0x20], True)])) \<and>
   responseText (fst (onresult defaults [([CHR 0x20, CHR 0x20], True)] (toggleListening defaults init)))
     = [CHR 0x20, CHR 0x20, CHR 0x0A, CHR 0x0A] @ ''AI: '' \<and>
   speakCalls (fst (onresult defaults [([CHR 0x20, CHR 0x20], True)] (toggleListening defaults init)))
     = [Str []] \<and>
   fetches (fst (onresult defaults [([CHR 0x20, CHR 0x20], True)] (toggleListening defaults init)))
     = []"
proof -
  have h1: "[([CHR 0x20, CHR 0x20], True)] \<noteq> []" by simp
  have h2: "snd (last [([CHR 0x20, CHR 0x20], True)])" by simp
  have h3: "\<not> requestInFlightRef (toggleListening defaults init)"
    by (simp add: toggleListening_def defaults_def init_def)
  have h4: "\<forall>c\<in>set (concat (map fst [([CHR 0x20, CHR 0x20], True)])). isWhiteSpace c"
    by (simp add: isWhiteSpace_def)
  have e: "speakCalls (toggleListening defaults init) = [] \<and>
           fetches (toggleListening defaults init) = []"
    by (simp add: toggleListening_def defaults_def init_def)
  from blank_transcript_still_answered [OF h1 h2 h3 h4, of defaults] h1 h2 h3 h4 e
  show ?thesis by (simp add: list_all_iff)
qed

end
